theory Spec2Isabelle
  imports Complex_Main "HOL-Library.Word"
begin

section \<open>ResvgQt.h: the Qt wrapper of the resvg C API\<close>

text \<open>
  The header \<^verbatim>\<open>capi/include/ResvgQt.h\<close> wraps the resvg C API (\<^verbatim>\<open>resvg.h\<close>) in a
  class shaped like \<^verbatim>\<open>QSvgRenderer\<close>. The wrapper is embedded function by function.
  Two collaborators are outside the header and appear as parameters:
  \<^item> the engine (\<^verbatim>\<open>resvg.h\<close>): a record of the C functions the wrapper calls;
  \<^item> the toolkit (Qt): the display list, the resource files, and the numeric
    conversions of \<^verbatim>\<open>qreal\<close>.

  The type \<^verbatim>\<open>double\<close>/\<^verbatim>\<open>qreal\<close> is a type parameter \<open>'r\<close>: the functions use
  only its zero, one, negation, order, product and quotient, and no law of arithmetic,
  so nothing proved below depends on how floating point rounds or divides by zero.
  A \<^verbatim>\<open>QString\<close> is modelled by the NUL-terminated UTF-8 string that
  \<^verbatim>\<open>toUtf8().constData()\<close> hands to the engine, a \<^verbatim>\<open>QByteArray\<close> by its bytes.
\<close>

subsection \<open>Engine codes and the error translator\<close>

text \<open>
  \<^verbatim>\<open>errorToString\<close> takes an \<^verbatim>\<open>int\<close> and switches on the eight enumerators of
  \<^verbatim>\<open>resvg_error\<close>. The enumerators' numeric values are declared in \<^verbatim>\<open>resvg.h\<close>;
  a code is therefore one of the eight names, or \<open>Undeclared n\<close> for an \<^verbatim>\<open>int\<close> that is
  none of them.
\<close>

datatype resvg_code =
    RESVG_OK
  | RESVG_ERROR_NOT_AN_UTF8_STR
  | RESVG_ERROR_FILE_OPEN_FAILED
  | RESVG_ERROR_FILE_WRITE_FAILED
  | RESVG_ERROR_INVALID_FILE_SUFFIX
  | RESVG_ERROR_MALFORMED_GZIP
  | RESVG_ERROR_PARSING_FAILED
  | RESVG_ERROR_NO_CANVAS
  | Undeclared int

text \<open>
  Ways the wrapper leaves defined behaviour: \<^verbatim>\<open>Q_UNREACHABLE()\<close> after the switch of
  \<^verbatim>\<open>errorToString\<close>, and a null tree handed to \<^verbatim>\<open>resvg_get_image_viewbox\<close>.
\<close>

datatype error = Unreachable | NullTree

fun errorToString :: "resvg_code \<Rightarrow> error + string" where
  "errorToString RESVG_OK = Inr ''''"
| "errorToString RESVG_ERROR_NOT_AN_UTF8_STR = Inr ''The SVG content has not an UTF-8 encoding.''"
| "errorToString RESVG_ERROR_FILE_OPEN_FAILED = Inr ''Failed to open the file.''"
| "errorToString RESVG_ERROR_FILE_WRITE_FAILED = Inr ''Failed to write to the file.''"
| "errorToString RESVG_ERROR_INVALID_FILE_SUFFIX = Inr ''Invalid file suffix.''"
| "errorToString RESVG_ERROR_MALFORMED_GZIP = Inr ''Not a GZip compressed data.''"
| "errorToString RESVG_ERROR_PARSING_FAILED = Inr ''Failed to parse an SVG data.''"
| "errorToString RESVG_ERROR_NO_CANVAS = Inr ''Failed to allocate the canvas.''"
| "errorToString (Undeclared n) = Inl Unreachable"

subsection \<open>Geometry\<close>

text \<open>\<^verbatim>\<open>resvg_rect\<close>: the engine's rectangle, four doubles.\<close>

record 'r resvg_rect =
  rect_x :: 'r
  rect_y :: 'r
  rect_width :: 'r
  rect_height :: 'r

text \<open>\<^verbatim>\<open>resvg_size\<close>: the target size of a render call, two \<^verbatim>\<open>uint32_t\<close>.\<close>

record resvg_size =
  img_width :: "32 word"
  img_height :: "32 word"

text \<open>
  \<^verbatim>\<open>QRectF(x, y, w, h)\<close>, \<^verbatim>\<open>QRect\<close> (by its x, y, width and height), \<^verbatim>\<open>QSizeF\<close> and
  \<^verbatim>\<open>QSize\<close>.
\<close>

record 'r QRectF =
  rectf_x :: 'r
  rectf_y :: 'r
  rectf_width :: 'r
  rectf_height :: 'r

record QRect =
  recti_x :: int
  recti_y :: int
  recti_width :: int
  recti_height :: int



text \<open>\<^verbatim>\<open>QRectF()\<close>: the null rectangle, all four components zero.\<close>

definition QRectF_null :: "'r::zero QRectF" where
  "QRectF_null = \<lparr>rectf_x = 0, rectf_y = 0, rectf_width = 0, rectf_height = 0\<rparr>"

text \<open>\<^verbatim>\<open>QRectF::isValid()\<close>: \<^verbatim>\<open>w > 0. && h > 0.\<close>\<close>

definition rectf_isValid :: "'r::{zero,ord} QRectF \<Rightarrow> bool" where
  "rectf_isValid r = (0 < rectf_width r \<and> 0 < rectf_height r)"



text \<open>
  \<^verbatim>\<open>QTransform\<close>: a 3x3 matrix. The six-argument constructor
  \<^verbatim>\<open>QTransform(h11, h12, h21, h22, dx, dy)\<close> fills the affine part and leaves the last
  column \<open>(0, 0, 1)\<close>.
\<close>

record 'r QTransform =
  m11 :: 'r
  m12 :: 'r
  m13 :: 'r
  m21 :: 'r
  m22 :: 'r
  m23 :: 'r
  m31 :: 'r
  m32 :: 'r
  m33 :: 'r

definition QTransform6 :: "'r \<Rightarrow> 'r \<Rightarrow> 'r \<Rightarrow> 'r \<Rightarrow> 'r \<Rightarrow> 'r \<Rightarrow> 'r::{zero,one} QTransform" where
  "QTransform6 h11 h12 h21 h22 dx dy =
     \<lparr>m11 = h11, m12 = h12, m13 = 0, m21 = h21, m22 = h22, m23 = 0, m31 = dx, m32 = dy, m33 = 1\<rparr>"

subsection \<open>The toolkit\<close>

text \<open>\<^verbatim>\<open>QScreen\<close>, as far as \<^verbatim>\<open>initOptions\<close> reads it.\<close>

record 'r QScreen =
  logicalDotsPerInch :: 'r
  devicePixelRatio :: 'r

text \<open>
  What the wrapper takes from Qt and from the C++ conversions of \<^verbatim>\<open>double\<close>:
  \<^item> \<open>screens\<close>: \<^verbatim>\<open>qApp->screens()\<close>;
  \<^item> \<open>resourceFile\<close>: \<^verbatim>\<open>QFile(path).open(QFile::ReadOnly)\<close> followed by
    \<^verbatim>\<open>readAll()\<close>: \<open>None\<close> when the file does not open, else its bytes;
  \<^item> \<open>fromInt\<close>: the conversion \<^verbatim>\<open>int\<close> to \<^verbatim>\<open>qreal\<close> of \<^verbatim>\<open>QRectF(const QRect &)\<close>;
  \<^item> \<open>toUInt\<close>: the cast \<^verbatim>\<open>(uint)\<close> of a \<^verbatim>\<open>double\<close>;
  \<^item> \<open>qRound\<close>: Qt's \<^verbatim>\<open>qRound(qreal)\<close>, which \<^verbatim>\<open>QSizeF::toSize()\<close> applies;
  \<^item> \<open>multiply\<close>: \<^verbatim>\<open>QTransform::operator*\<close>.
\<close>

record 'r toolkit =
  screens :: "'r QScreen list"
  resourceFile :: "string \<Rightarrow> string option"
  fromInt :: "int \<Rightarrow> 'r"
  toUInt :: "'r \<Rightarrow> 32 word"
  qRound :: "'r \<Rightarrow> int"
  multiply :: "'r QTransform \<Rightarrow> 'r QTransform \<Rightarrow> 'r QTransform"

text \<open>\<^verbatim>\<open>QRectF(const QRect &r)\<close>: componentwise.\<close>

definition QRectF_of_QRect :: "'r toolkit \<Rightarrow> QRect \<Rightarrow> 'r QRectF" where
  "QRectF_of_QRect qt r =
     \<lparr>rectf_x = fromInt qt (recti_x r), rectf_y = fromInt qt (recti_y r),
      rectf_width = fromInt qt (recti_width r), rectf_height = fromInt qt (recti_height r)\<rparr>"


subsection \<open>The painter\<close>

text \<open>
  \<^verbatim>\<open>QPainter\<close>: the current state (transform, clip, render hints, viewport), the stack
  of states that \<^verbatim>\<open>save()\<close> pushes and \<^verbatim>\<open>restore()\<close> pops, and the paint device.
  The wrapper names one render hint, \<^verbatim>\<open>QPainter::Antialiasing\<close>.
\<close>

datatype RenderHint = Antialiasing | OtherHint nat

record ('r, 'c) QPainterState =
  transform :: "'r QTransform"
  clip :: 'c
  renderHints :: "RenderHint set"
  viewport :: QRect

record ('r, 'c, 'v) QPainter =
  state :: "('r, 'c) QPainterState"
  saved :: "('r, 'c) QPainterState list"
  device :: 'v

definition save :: "('r, 'c, 'v) QPainter \<Rightarrow> ('r, 'c, 'v) QPainter" where
  "save p = p\<lparr>saved := state p # saved p\<rparr>"

text \<open>\<^verbatim>\<open>restore()\<close> on an empty stack only warns (unbalanced save/restore).\<close>

definition restore :: "('r, 'c, 'v) QPainter \<Rightarrow> ('r, 'c, 'v) QPainter" where
  "restore p = (case saved p of [] \<Rightarrow> p | s # ss \<Rightarrow> p\<lparr>state := s, saved := ss\<rparr>)"

definition setRenderHint :: "RenderHint \<Rightarrow> ('r, 'c, 'v) QPainter \<Rightarrow> ('r, 'c, 'v) QPainter" where
  "setRenderHint hint p = p\<lparr>state := (state p)\<lparr>renderHints := insert hint (renderHints (state p))\<rparr>\<rparr>"

text \<open>\<^verbatim>\<open>setTransform(t, combine)\<close>: with \<^verbatim>\<open>combine\<close> the new transform is \<^verbatim>\<open>t * current\<close>.\<close>

definition setTransform ::
  "'r toolkit \<Rightarrow> 'r QTransform \<Rightarrow> bool \<Rightarrow> ('r, 'c, 'v) QPainter \<Rightarrow> ('r, 'c, 'v) QPainter" where
  "setTransform qt t combine p =
     p\<lparr>state := (state p)\<lparr>transform := (if combine then multiply qt t (transform (state p)) else t)\<rparr>\<rparr>"

subsection \<open>The engine\<close>

text \<open>\<^verbatim>\<open>resvg_options\<close>: the two fields the wrapper reads or writes.\<close>

record 'r resvg_options =
  path :: "string option"
  dpi :: 'r

text \<open>
  The functions of \<^verbatim>\<open>resvg.h\<close> the wrapper calls. A parse function returns its code and
  what it stored through \<^verbatim>\<open>resvg_render_tree **tree\<close> (\<open>None\<close>: nothing stored);
  \<^verbatim>\<open>resvg_qt_get_node_bbox\<close> returns \<open>Some bbox\<close> for \<^verbatim>\<open>true\<close> with \<^verbatim>\<open>*bbox\<close> written and
  \<open>None\<close> for \<^verbatim>\<open>false\<close>; a render function returns the painter as it leaves it.
\<close>

record ('r, 't, 'c, 'v) engine =
  default_dpi :: 'r
  resvg_parse_tree_from_file :: "string \<Rightarrow> 'r resvg_options \<Rightarrow> resvg_code \<times> 't option"
  resvg_parse_tree_from_data :: "string \<Rightarrow> 'r resvg_options \<Rightarrow> resvg_code \<times> 't option"
  resvg_get_image_viewbox :: "'t \<Rightarrow> 'r resvg_rect"
  resvg_is_image_empty :: "'t \<Rightarrow> bool"
  resvg_qt_get_node_bbox :: "'t \<Rightarrow> 'r resvg_options \<Rightarrow> string \<Rightarrow> 'r resvg_rect option"
  resvg_qt_render_to_canvas ::
    "'t \<Rightarrow> 'r resvg_options \<Rightarrow> resvg_size \<Rightarrow> ('r, 'c, 'v) QPainter \<Rightarrow> ('r, 'c, 'v) QPainter"
  resvg_qt_render_to_canvas_by_id ::
    "'t \<Rightarrow> 'r resvg_options \<Rightarrow> resvg_size \<Rightarrow> string \<Rightarrow> ('r, 'c, 'v) QPainter \<Rightarrow> ('r, 'c, 'v) QPainter"

text \<open>
  Modelled from the spec: \<^verbatim>\<open>resvg_init_options\<close> is defined by the engine, not in
  \<^verbatim>\<open>ResvgQt.h\<close>. It overwrites the options with the engine's defaults; the base path
  is null then (the spec: loading bytes after a reset parses "with current options (base
  path null)"). It is modelled by the value it leaves.
\<close>

definition resvg_init_options :: "('r, 't, 'c, 'v) engine \<Rightarrow> 'r resvg_options" where
  "resvg_init_options eng = \<lparr>path = None, dpi = default_dpi eng\<rparr>"

subsection \<open>\<^verbatim>\<open>ResvgPrivate\<close>: options, data and reset\<close>

definition initOptions :: "('r::times, 't, 'c, 'v) engine \<Rightarrow> 'r toolkit \<Rightarrow> 'r resvg_options" where
  "initOptions eng qt =
     (let opt = resvg_init_options eng in
      case screens qt of
        [] \<Rightarrow> opt
      | screen # _ \<Rightarrow> opt\<lparr>dpi := logicalDotsPerInch screen * devicePixelRatio screen\<rparr>)"

record ('r, 't) Data =
  tree :: "'t option"
  opt :: "'r resvg_options"
  viewBox :: "'r QRectF"
  errMsg :: string

text \<open>\<^verbatim>\<open>Data()\<close>: the constructor calls \<^verbatim>\<open>resvg_init_options\<close> only.\<close>

definition Data_new :: "('r::zero, 't, 'c, 'v) engine \<Rightarrow> ('r, 't) Data" where
  "Data_new eng = \<lparr>tree = None, opt = resvg_init_options eng, viewBox = QRectF_null, errMsg = ''''\<rparr>"

text \<open>
  What \<^verbatim>\<open>reset\<close> gives back: a tree handed to \<^verbatim>\<open>resvg_tree_destroy\<close>, a path released
  with \<^verbatim>\<open>delete[]\<close>. Every function that resets returns the releases it made, in order.
\<close>

datatype 't release = TreeDestroyed 't | PathFreed string

definition reset ::
  "('r::{zero,times}, 't, 'c, 'v) engine \<Rightarrow> 'r toolkit \<Rightarrow> ('r, 't) Data \<Rightarrow> ('r, 't) Data \<times> 't release list" where
  "reset eng qt d =
     (let (d1, rel1) = (case tree d of
                          Some t \<Rightarrow> (d\<lparr>tree := None\<rparr>, [TreeDestroyed t])
                        | None \<Rightarrow> (d, []));
          (d2, rel2) = (case path (opt d1) of
                          Some s \<Rightarrow> (d1\<lparr>opt := (opt d1)\<lparr>path := None\<rparr>\<rparr>, [PathFreed s])
                        | None \<Rightarrow> (d1, []))
      in (d2\<lparr>opt := initOptions eng qt, viewBox := QRectF_null, errMsg := ''''\<rparr>, rel1 @ rel2))"

subsection \<open>\<^verbatim>\<open>ResvgRenderer\<close>: loading\<close>

text \<open>
  A load returns \<open>Inl\<close> where the C++ leaves defined behaviour, else the \<^verbatim>\<open>bool\<close> it
  returns, the new \<^verbatim>\<open>Data\<close> and the releases made on the way.
\<close>

definition startsWith :: "string \<Rightarrow> string \<Rightarrow> bool" where
  "startsWith s pre = (take (length pre) s = pre)"

definition load_data ::
  "('r::{zero,times}, 't, 'c, 'v) engine \<Rightarrow> 'r toolkit \<Rightarrow> string \<Rightarrow> ('r, 't) Data
     \<Rightarrow> error + (bool \<times> ('r, 't) Data \<times> 't release list)" where
  "load_data eng qt bytes d =
     (let (d1, rel) = reset eng qt d;
          (err, out) = resvg_parse_tree_from_data eng bytes (opt d1);
          d2 = (case out of Some t \<Rightarrow> d1\<lparr>tree := Some t\<rparr> | None \<Rightarrow> d1)
      in if err \<noteq> RESVG_OK then
           (case errorToString err of
              Inl e \<Rightarrow> Inl e
            | Inr msg \<Rightarrow> Inr (False, d2\<lparr>errMsg := msg\<rparr>, rel))
         else
           (case tree d2 of
              None \<Rightarrow> Inl NullTree
            | Some t \<Rightarrow>
                let r = resvg_get_image_viewbox eng t in
                Inr (True,
                     d2\<lparr>viewBox := \<lparr>rectf_x = rect_x r, rectf_y = rect_y r,
                                    rectf_width = rect_width r, rectf_height = rect_height r\<rparr>\<rparr>,
                     rel)))"

definition load_file ::
  "('r::{zero,times}, 't, 'c, 'v) engine \<Rightarrow> 'r toolkit \<Rightarrow> string \<Rightarrow> ('r, 't) Data
     \<Rightarrow> error + (bool \<times> ('r, 't) Data \<times> 't release list)" where
  "load_file eng qt filePath d =
     (if startsWith filePath '':/'' then
        (case resourceFile qt filePath of
           Some bytes \<Rightarrow> load_data eng qt bytes d
         | None \<Rightarrow> Inr (False, d, []))
      else
        let (d1, rel) = reset eng qt d;
            d2 = d1\<lparr>opt := (opt d1)\<lparr>path := Some filePath\<rparr>\<rparr>;
            (err, out) = resvg_parse_tree_from_file eng filePath (opt d2);
            d3 = (case out of Some t \<Rightarrow> d2\<lparr>tree := Some t\<rparr> | None \<Rightarrow> d2)
        in if err \<noteq> RESVG_OK then
             (case errorToString err of
                Inl e \<Rightarrow> Inl e
              | Inr msg \<Rightarrow> Inr (False, d3\<lparr>errMsg := msg\<rparr>, rel))
           else
             (case tree d3 of
                None \<Rightarrow> Inl NullTree
              | Some t \<Rightarrow>
                  let r = resvg_get_image_viewbox eng t in
                  Inr (True,
                       d3\<lparr>viewBox := \<lparr>rectf_x = rect_x r, rectf_y = rect_y r,
                                      rectf_width = rect_width r, rectf_height = rect_height r\<rparr>\<rparr>,
                       rel)))"

subsection \<open>\<^verbatim>\<open>ResvgRenderer\<close>: queries\<close>

definition isValid :: "('r, 't) Data \<Rightarrow> bool" where
  "isValid d = (tree d \<noteq> None)"

definition errorString :: "('r, 't) Data \<Rightarrow> string" where
  "errorString d = errMsg d"

definition isEmpty :: "('r, 't, 'c, 'v) engine \<Rightarrow> ('r, 't) Data \<Rightarrow> bool" where
  "isEmpty eng d = (case tree d of Some t \<Rightarrow> \<not> resvg_is_image_empty eng t | None \<Rightarrow> True)"



definition viewBoxF :: "('r::zero, 't) Data \<Rightarrow> 'r QRectF" where
  "viewBoxF d = (case tree d of Some t \<Rightarrow> viewBox d | None \<Rightarrow> QRectF_null)"

definition boundsOnElement :: "('r::zero, 't, 'c, 'v) engine \<Rightarrow> ('r, 't) Data \<Rightarrow> string \<Rightarrow> 'r QRectF" where
  "boundsOnElement eng d ident =
     (case tree d of
        None \<Rightarrow> QRectF_null
      | Some t \<Rightarrow>
          (case resvg_qt_get_node_bbox eng t (opt d) ident of
             Some bbox \<Rightarrow>
               \<lparr>rectf_x = rect_x bbox, rectf_y = rect_y bbox,
                rectf_width = rect_height bbox, rectf_height = rect_width bbox\<rparr>
           | None \<Rightarrow> QRectF_null))"

subsection \<open>\<^verbatim>\<open>ResvgRenderer\<close>: drawing\<close>

definition render_bounds ::
  "('r::{zero,one,ord,inverse}, 't, 'c, 'v) engine \<Rightarrow> 'r toolkit \<Rightarrow> ('r, 't) Data
     \<Rightarrow> ('r, 'c, 'v) QPainter \<Rightarrow> 'r QRectF \<Rightarrow> ('r, 'c, 'v) QPainter" where
  "render_bounds eng qt d p bounds =
     (case tree d of
        None \<Rightarrow> p
      | Some t \<Rightarrow>
          let r = (if rectf_isValid bounds then bounds else QRectF_of_QRect qt (viewport (state p)));
              p1 = save p;
              p2 = setRenderHint Antialiasing p1;
              sx = rectf_width r / rectf_width (viewBox d);
              sy = rectf_height r / rectf_height (viewBox d);
              p3 = setTransform qt (QTransform6 sx 0 0 sy (rectf_x r) (rectf_y r)) True p2;
              imgSize = \<lparr>img_width = toUInt qt (rectf_width (viewBox d)),
                         img_height = toUInt qt (rectf_height (viewBox d))\<rparr>;
              p4 = resvg_qt_render_to_canvas eng t (opt d) imgSize p3
          in restore p4)"

definition render ::
  "('r::{zero,one,ord,inverse}, 't, 'c, 'v) engine \<Rightarrow> 'r toolkit \<Rightarrow> ('r, 't) Data
     \<Rightarrow> ('r, 'c, 'v) QPainter \<Rightarrow> ('r, 'c, 'v) QPainter" where
  "render eng qt d p = render_bounds eng qt d p QRectF_null"

text \<open>
  The by-id overload also returns the messages it sends to \<^verbatim>\<open>qWarning()\<close>.
\<close>

definition render_element ::
  "('r::{zero,one,ord,inverse}, 't, 'c, 'v) engine \<Rightarrow> 'r toolkit \<Rightarrow> ('r, 't) Data
     \<Rightarrow> ('r, 'c, 'v) QPainter \<Rightarrow> string \<Rightarrow> 'r QRectF \<Rightarrow> ('r, 'c, 'v) QPainter \<times> string list" where
  "render_element eng qt d p elementId bounds =
     (case tree d of
        None \<Rightarrow> (p, [])
      | Some t \<Rightarrow>
          (case resvg_qt_get_node_bbox eng t (opt d) elementId of
             None \<Rightarrow> (p, [''Element '' @ [CHR 0x27] @ elementId @ [CHR 0x27] @ '' has no bounding box.''])
           | Some bbox \<Rightarrow>
               let p1 = save p;
                   p2 = setRenderHint Antialiasing p1;
                   r = (if rectf_isValid bounds then bounds else QRectF_of_QRect qt (viewport (state p2)));
                   sx = rectf_width r / rect_width bbox;
                   sy = rectf_height r / rect_height bbox;
                   p3 = setTransform qt (QTransform6 sx 0 0 sy (rectf_x bounds) (rectf_y bounds)) True p2;
                   imgSize = \<lparr>img_width = toUInt qt (rect_width bbox),
                              img_height = toUInt qt (rect_height bbox)\<rparr>;
                   p4 = resvg_qt_render_to_canvas_by_id eng t (opt d) imgSize elementId p3
               in (restore p4, [])))"

subsection \<open>Sequences of loads\<close>

text \<open>
  The state of a renderer between public operations: \<^verbatim>\<open>ResvgRenderer()\<close> followed by
  loads (the queries and the draw calls take \<^verbatim>\<open>d\<close> as it is and leave it so).
  \<open>loads\<close> runs the calls in order and stops where one leaves defined behaviour.
\<close>

datatype load_call = LoadFile string | LoadData string

fun load ::
  "('r::{zero,times}, 't, 'c, 'v) engine \<Rightarrow> 'r toolkit \<Rightarrow> load_call \<Rightarrow> ('r, 't) Data
     \<Rightarrow> error + (bool \<times> ('r, 't) Data \<times> 't release list)" where
  "load eng qt (LoadFile filePath) d = load_file eng qt filePath d"
| "load eng qt (LoadData bytes) d = load_data eng qt bytes d"

fun loads ::
  "('r::{zero,times}, 't, 'c, 'v) engine \<Rightarrow> 'r toolkit \<Rightarrow> load_call list \<Rightarrow> ('r, 't) Data
     \<Rightarrow> error + ('r, 't) Data" where
  "loads eng qt [] d = Inr d"
| "loads eng qt (c # cs) d =
     (case load eng qt c d of
        Inl e \<Rightarrow> Inl e
      | Inr (ok, d', rel) \<Rightarrow> loads eng qt cs d')"

subsection \<open>Notions the properties are stated with\<close>

text \<open>
  The table of messages, as the specification lists it (section 4.3): eight codes,
  \<^verbatim>\<open>OK\<close> with the empty message.
\<close>

definition spec_messages :: "(resvg_code \<times> string) list" where
  "spec_messages =
     [(RESVG_OK, ''''),
      (RESVG_ERROR_NOT_AN_UTF8_STR, ''The SVG content has not an UTF-8 encoding.''),
      (RESVG_ERROR_FILE_OPEN_FAILED, ''Failed to open the file.''),
      (RESVG_ERROR_FILE_WRITE_FAILED, ''Failed to write to the file.''),
      (RESVG_ERROR_INVALID_FILE_SUFFIX, ''Invalid file suffix.''),
      (RESVG_ERROR_MALFORMED_GZIP, ''Not a GZip compressed data.''),
      (RESVG_ERROR_PARSING_FAILED, ''Failed to parse an SVG data.''),
      (RESVG_ERROR_NO_CANVAS, ''Failed to allocate the canvas.'')]"

text \<open>
  The engine's side of a parse: a call that returns a code other than \<^verbatim>\<open>RESVG_OK\<close> stores
  no tree through its out-pointer.
\<close>

definition failed_parse_stores_nothing :: "('r, 't, 'c, 'v) engine \<Rightarrow> bool" where
  "failed_parse_stores_nothing eng =
     (\<forall>s opts. (fst (resvg_parse_tree_from_file eng s opts) \<noteq> RESVG_OK
                    \<longrightarrow> snd (resvg_parse_tree_from_file eng s opts) = None)
              \<and> (fst (resvg_parse_tree_from_data eng s opts) \<noteq> RESVG_OK
                    \<longrightarrow> snd (resvg_parse_tree_from_data eng s opts) = None))"

text \<open>
  The engine's side of a draw call: it may draw and may change the painter's current
  state, and it leaves the stack of saved states as it found it (its own
  \<^verbatim>\<open>save()\<close>/\<^verbatim>\<open>restore()\<close> calls are balanced).
\<close>

definition render_keeps_saved_states :: "('r, 't, 'c, 'v) engine \<Rightarrow> bool" where
  "render_keeps_saved_states eng =
     (\<forall>t opts sz p ident.
        saved (resvg_qt_render_to_canvas eng t opts sz p) = saved p
        \<and> saved (resvg_qt_render_to_canvas_by_id eng t opts sz ident p) = saved p)"

text \<open>
  The base path the wrapper leaves after a load, given the one before it: a path without
  the prefix \<^verbatim>\<open>:/\<close> becomes the base path whether or not it parses; bytes, and a
  resource that opens, leave none; a resource that does not open changes nothing.
\<close>

fun base_path_after :: "'r toolkit \<Rightarrow> string option \<Rightarrow> load_call \<Rightarrow> string option" where
  "base_path_after qt before (LoadData bytes) = None"
| "base_path_after qt before (LoadFile filePath) =
     (if startsWith filePath '':/'' then
        (case resourceFile qt filePath of Some bytes \<Rightarrow> None | None \<Rightarrow> before)
      else Some filePath)"

text \<open>
  The integer default size as the specification words it: width and height of the
  viewbox truncated (towards zero), the zero size without a document.
\<close>

definition truncate :: "real \<Rightarrow> int" where
  "truncate v = (if 0 \<le> v then \<lfloor>v\<rfloor> else \<lceil>v\<rceil>)"


text \<open>
  A load attempts a parse unless it names a resource (prefix \<^verbatim>\<open>:/\<close>) that does not
  open.
\<close>

fun parse_attempted :: "'r toolkit \<Rightarrow> load_call \<Rightarrow> bool" where
  "parse_attempted qt (LoadData bytes) = True"
| "parse_attempted qt (LoadFile filePath) =
     (if startsWith filePath '':/'' then resourceFile qt filePath \<noteq> None else True)"


subsection \<open>A toolkit over the reals and a sample engine\<close>

text \<open>
  A toolkit that computes over the reals, with unbounded integers. \<^verbatim>\<open>qRound\<close> is the
  formula of Qt 5,
  \<^verbatim>\<open>d >= 0.0 ? int(d + 0.5) : int(d - double(int(d-1)) + 0.5) + int(d-1)\<close>,
  and the product of transforms is the 3x3 matrix product. It agrees with C++ and Qt
  where the computation in \<^verbatim>\<open>double\<close> is exact and its result fits the integer type, as
  on the half-integers the sample documents use; elsewhere (a sum that rounds, a value
  outside the range of \<^verbatim>\<open>int\<close>) it is no model of Qt, and it serves below only to
  evaluate the wrapper on the sample documents. One display (96 dpi, pixel ratio 2) and
  one resource file.
\<close>

definition qRound_real :: "real \<Rightarrow> int" where
  "qRound_real v =
     (if 0 \<le> v then truncate (v + 1 / 2)
      else truncate (v - of_int (truncate (v - 1)) + 1 / 2) + truncate (v - 1))"

definition multiply_real :: "real QTransform \<Rightarrow> real QTransform \<Rightarrow> real QTransform" where
  "multiply_real a b =
     \<lparr>m11 = m11 a * m11 b + m12 a * m21 b + m13 a * m31 b,
      m12 = m11 a * m12 b + m12 a * m22 b + m13 a * m32 b,
      m13 = m11 a * m13 b + m12 a * m23 b + m13 a * m33 b,
      m21 = m21 a * m11 b + m22 a * m21 b + m23 a * m31 b,
      m22 = m21 a * m12 b + m22 a * m22 b + m23 a * m32 b,
      m23 = m21 a * m13 b + m22 a * m23 b + m23 a * m33 b,
      m31 = m31 a * m11 b + m32 a * m21 b + m33 a * m31 b,
      m32 = m31 a * m12 b + m32 a * m22 b + m33 a * m32 b,
      m33 = m31 a * m13 b + m32 a * m23 b + m33 a * m33 b\<rparr>"

definition qt_real :: "real toolkit" where
  "qt_real =
     \<lparr>screens = [\<lparr>logicalDotsPerInch = 96, devicePixelRatio = 2\<rparr>],
      resourceFile = (\<lambda>s. if s = '':/icon.svg'' then Some ''<svg/>'' else None),
      fromInt = of_int,
      toUInt = (\<lambda>v. word_of_int (truncate v)),
      qRound = qRound_real,
      multiply = multiply_real\<rparr>"

text \<open>
  An engine with two documents. The file \<^verbatim>\<open>logo.svg\<close> parses to tree 1 (viewbox
  200 x 100, not empty); the bytes \<^verbatim>\<open><svg/>\<close> parse to tree 2 (viewbox 2.5 x 1.5, empty).
  Every other file fails to open, all other bytes are not UTF-8. The element \<^verbatim>\<open>foo\<close>
  has the bounding box (10, 20, 30, 40). A draw call sets a clip of its own and logs on
  the device what it drew, under which transform and at which size.
\<close>

definition sample_engine :: "(real, nat, nat, (string \<times> real QTransform \<times> resvg_size) list) engine" where
  "sample_engine =
     \<lparr>default_dpi = 96,
      resvg_parse_tree_from_file =
        (\<lambda>s opts. if s = ''logo.svg'' then (RESVG_OK, Some 1) else (RESVG_ERROR_FILE_OPEN_FAILED, None)),
      resvg_parse_tree_from_data =
        (\<lambda>s opts. if s = ''<svg/>'' then (RESVG_OK, Some 2) else (RESVG_ERROR_NOT_AN_UTF8_STR, None)),
      resvg_get_image_viewbox =
        (\<lambda>t. if t = 1 then \<lparr>rect_x = 0, rect_y = 0, rect_width = 200, rect_height = 100\<rparr>
             else \<lparr>rect_x = 0, rect_y = 0, rect_width = 5 / 2, rect_height = 3 / 2\<rparr>),
      resvg_is_image_empty = (\<lambda>t. t = 2),
      resvg_qt_get_node_bbox =
        (\<lambda>t opts ident. if ident = ''foo''
           then Some \<lparr>rect_x = 10, rect_y = 20, rect_width = 30, rect_height = 40\<rparr> else None),
      resvg_qt_render_to_canvas =
        (\<lambda>t opts sz p. p\<lparr>state := (state p)\<lparr>clip := 7\<rparr>, device := device p @ [(''document'', transform (state p), sz)]\<rparr>),
      resvg_qt_render_to_canvas_by_id =
        (\<lambda>t opts sz ident p. p\<lparr>state := (state p)\<lparr>clip := 7\<rparr>, device := device p @ [(ident, transform (state p), sz)]\<rparr>)\<rparr>"

text \<open>The renderer after \<^verbatim>\<open>load("logo.svg")\<close>, and after \<^verbatim>\<open>load("<svg/>")\<close>.\<close>

definition logo_doc :: "(real, nat) Data" where
  "logo_doc =
     \<lparr>tree = Some 1,
      opt = \<lparr>path = Some ''logo.svg'', dpi = 192\<rparr>,
      viewBox = \<lparr>rectf_x = 0, rectf_y = 0, rectf_width = 200, rectf_height = 100\<rparr>,
      errMsg = ''''\<rparr>"

definition bytes_doc :: "(real, nat) Data" where
  "bytes_doc =
     \<lparr>tree = Some 2,
      opt = \<lparr>path = None, dpi = 192\<rparr>,
      viewBox = \<lparr>rectf_x = 0, rectf_y = 0, rectf_width = 5 / 2, rectf_height = 3 / 2\<rparr>,
      errMsg = ''''\<rparr>"

text \<open>A painter with an identity transform, no clip, no hints and a 400 x 200 viewport.\<close>

definition sample_painter :: "(real, nat, (string \<times> real QTransform \<times> resvg_size) list) QPainter" where
  "sample_painter =
     \<lparr>state = \<lparr>transform = QTransform6 1 0 0 1 0 0, clip = 0, renderHints = {},
               viewport = \<lparr>recti_x = 0, recti_y = 0, recti_width = 400, recti_height = 200\<rparr>\<rparr>,
      saved = [],
      device = []\<rparr>"

text \<open>The renderer after a failed \<^verbatim>\<open>load("missing.svg")\<close>.\<close>

definition missing_doc :: "(real, nat) Data" where
  "missing_doc =
     \<lparr>tree = None,
      opt = \<lparr>path = Some ''missing.svg'', dpi = 192\<rparr>,
      viewBox = QRectF_null,
      errMsg = ''Failed to open the file.''\<rparr>"

section \<open>Properties\<close>

subsection \<open>What reset and the loads compute\<close>

lemma reset_result:
  "reset eng qt d =
     (\<lparr>tree = None, opt = initOptions eng qt, viewBox = QRectF_null, errMsg = ''''\<rparr>,
      (case tree d of Some t \<Rightarrow> [TreeDestroyed t] | None \<Rightarrow> [])
        @ (case path (opt d) of Some s \<Rightarrow> [PathFreed s] | None \<Rightarrow> []))"
  by (cases d) (simp add: reset_def split: option.split)

lemma initOptions_path: "path (initOptions eng qt) = None"
  by (simp add: initOptions_def resvg_init_options_def Let_def split: list.split)

lemma load_data_failed:
  assumes "resvg_parse_tree_from_data eng bytes (initOptions eng qt) = (c, out)"
    and "c \<noteq> RESVG_OK" and "errorToString c = Inr msg"
  shows "load_data eng qt bytes d =
           Inr (False, \<lparr>tree = out, opt = initOptions eng qt, viewBox = QRectF_null, errMsg = msg\<rparr>,
                snd (reset eng qt d))"
  using assms by (cases out) (simp_all add: load_data_def reset_result Let_def)

lemma load_file_failed:
  assumes "\<not> startsWith filePath '':/''"
    and "resvg_parse_tree_from_file eng filePath ((initOptions eng qt)\<lparr>path := Some filePath\<rparr>) = (c, out)"
    and "c \<noteq> RESVG_OK" and "errorToString c = Inr msg"
  shows "load_file eng qt filePath d =
           Inr (False,
                \<lparr>tree = out, opt = (initOptions eng qt)\<lparr>path := Some filePath\<rparr>,
                 viewBox = QRectF_null, errMsg = msg\<rparr>,
                snd (reset eng qt d))"
  using assms by (cases out) (simp_all add: load_file_def reset_result Let_def)

lemma load_data_parsed:
  assumes "resvg_parse_tree_from_data eng bytes (initOptions eng qt) = (RESVG_OK, Some t)"
  shows "load_data eng qt bytes d =
           Inr (True,
                \<lparr>tree = Some t, opt = initOptions eng qt,
                 viewBox = \<lparr>rectf_x = rect_x (resvg_get_image_viewbox eng t),
                            rectf_y = rect_y (resvg_get_image_viewbox eng t),
                            rectf_width = rect_width (resvg_get_image_viewbox eng t),
                            rectf_height = rect_height (resvg_get_image_viewbox eng t)\<rparr>,
                 errMsg = ''''\<rparr>,
                snd (reset eng qt d))"
  using assms by (simp add: load_data_def reset_result Let_def)

lemma load_file_parsed:
  assumes "\<not> startsWith filePath '':/''"
    and "resvg_parse_tree_from_file eng filePath ((initOptions eng qt)\<lparr>path := Some filePath\<rparr>) = (RESVG_OK, Some t)"
  shows "load_file eng qt filePath d =
           Inr (True,
                \<lparr>tree = Some t, opt = (initOptions eng qt)\<lparr>path := Some filePath\<rparr>,
                 viewBox = \<lparr>rectf_x = rect_x (resvg_get_image_viewbox eng t),
                            rectf_y = rect_y (resvg_get_image_viewbox eng t),
                            rectf_width = rect_width (resvg_get_image_viewbox eng t),
                            rectf_height = rect_height (resvg_get_image_viewbox eng t)\<rparr>,
                 errMsg = ''''\<rparr>,
                snd (reset eng qt d))"
  using assms by (simp add: load_file_def reset_result Let_def)

subsection \<open>The sample engine\<close>

lemma sample_initOptions: "initOptions sample_engine qt_real = \<lparr>path = None, dpi = 192\<rparr>"
  by (simp add: initOptions_def resvg_init_options_def sample_engine_def qt_real_def)

lemma sample_load_logo:
  "load_file sample_engine qt_real ''logo.svg'' (Data_new sample_engine) = Inr (True, logo_doc, [])"
  by (subst load_file_parsed [where t = 1])
     (simp_all add: startsWith_def sample_initOptions reset_result logo_doc_def Data_new_def
        resvg_init_options_def, simp_all add: sample_engine_def)

lemma sample_load_bytes:
  "load_data sample_engine qt_real ''<svg/>'' (Data_new sample_engine) = Inr (True, bytes_doc, [])"
  by (subst load_data_parsed [where t = 2])
     (simp_all add: sample_initOptions reset_result bytes_doc_def Data_new_def
        resvg_init_options_def, simp_all add: sample_engine_def)

subsection \<open>Reset\<close>

text \<open>
  Claim C9. Reset is idempotent: a second reset returns the state of the first and
  releases nothing (it destroys no tree and frees no path). The state after a reset has
  no tree, a null base path, the engine's default options with the DPI of the first
  display when there is one (else the engine's default), the null viewbox and an empty
  error message.
\<close>

theorem reset_idempotent:
  "reset eng qt (fst (reset eng qt d)) = (fst (reset eng qt d), [])
   \<and> fst (reset eng qt d) = \<lparr>tree = None, opt = initOptions eng qt, viewBox = QRectF_null, errMsg = ''''\<rparr>
   \<and> path (initOptions eng qt) = None
   \<and> dpi (initOptions eng qt) =
       (case screens qt of [] \<Rightarrow> default_dpi eng
        | screen # rest \<Rightarrow> logicalDotsPerInch screen * devicePixelRatio screen)"
  by (simp add: reset_result initOptions_path)
     (simp add: initOptions_def resvg_init_options_def Let_def split: list.split)

subsection \<open>Error translation\<close>

lemma spec_messages_codes: "(c \<notin> fst ` set spec_messages) = (\<exists>n. c = Undeclared n)"
  by (cases c) (simp_all add: spec_messages_def)

text \<open>
  Claim C6. For every row \<open>(c, msg)\<close> of the specification's table, \<open>errorToString c\<close>
  is \<open>msg\<close>; when a parse attempt (of bytes, or of a file without the resource prefix)
  returns a code \<open>c\<close> other than \<^verbatim>\<open>RESVG_OK\<close>, the load returns \<^verbatim>\<open>false\<close> and
  \<open>errorString\<close> is \<open>msg\<close>. For \<^verbatim>\<open>RESVG_OK\<close> the translation is the empty string. The
  codes outside the table are exactly the undeclared ones, and on those the translator
  reaches \<^verbatim>\<open>Q_UNREACHABLE()\<close>.
\<close>

theorem load_reports_table_message:
  assumes row: "(c, msg) \<in> set spec_messages"
  shows "errorToString c = Inr msg
   \<and> (c = RESVG_OK \<longrightarrow> msg = '''')
   \<and> (c \<noteq> RESVG_OK \<longrightarrow>
        (\<forall>bytes out. resvg_parse_tree_from_data eng bytes (initOptions eng qt) = (c, out) \<longrightarrow>
           (\<exists>d' rel. load_data eng qt bytes d = Inr (False, d', rel) \<and> errorString d' = msg))
      \<and> (\<forall>filePath out. \<not> startsWith filePath '':/'' \<longrightarrow>
           resvg_parse_tree_from_file eng filePath ((initOptions eng qt)\<lparr>path := Some filePath\<rparr>) = (c, out) \<longrightarrow>
           (\<exists>d' rel. load_file eng qt filePath d = Inr (False, d', rel) \<and> errorString d' = msg)))
   \<and> (\<forall>c'. c' \<notin> fst ` set spec_messages \<longleftrightarrow> (\<exists>n. c' = Undeclared n))
   \<and> (\<forall>n. errorToString (Undeclared n) = Inl Unreachable)"
proof -
  have table: "errorToString c = Inr msg"
    using row by (auto simp: spec_messages_def)
  have ok: "c = RESVG_OK \<longrightarrow> msg = ''''"
    using row by (auto simp: spec_messages_def)
  have from_bytes: "\<exists>d' rel. load_data eng qt bytes d = Inr (False, d', rel) \<and> errorString d' = msg"
    if "c \<noteq> RESVG_OK" "resvg_parse_tree_from_data eng bytes (initOptions eng qt) = (c, out)"
    for bytes out
    using load_data_failed [OF that(2) that(1) table, of d]
    by (simp add: errorString_def)
  have from_file: "\<exists>d' rel. load_file eng qt filePath d = Inr (False, d', rel) \<and> errorString d' = msg"
    if "c \<noteq> RESVG_OK" "\<not> startsWith filePath '':/''"
      "resvg_parse_tree_from_file eng filePath ((initOptions eng qt)\<lparr>path := Some filePath\<rparr>) = (c, out)"
    for filePath out
    using load_file_failed [OF that(2) that(3) that(1) table, of d]
    by (simp add: errorString_def)
  have loads: "c \<noteq> RESVG_OK \<longrightarrow>
        (\<forall>bytes out. resvg_parse_tree_from_data eng bytes (initOptions eng qt) = (c, out) \<longrightarrow>
           (\<exists>d' rel. load_data eng qt bytes d = Inr (False, d', rel) \<and> errorString d' = msg))
      \<and> (\<forall>filePath out. \<not> startsWith filePath '':/'' \<longrightarrow>
           resvg_parse_tree_from_file eng filePath ((initOptions eng qt)\<lparr>path := Some filePath\<rparr>) = (c, out) \<longrightarrow>
           (\<exists>d' rel. load_file eng qt filePath d = Inr (False, d', rel) \<and> errorString d' = msg))"
    using from_bytes from_file by (intro impI conjI allI)
  have closed: "\<forall>c'. c' \<notin> fst ` set spec_messages \<longleftrightarrow> (\<exists>n. c' = Undeclared n)"
    by (intro allI spec_messages_codes)
  have undeclared: "\<forall>n. errorToString (Undeclared n) = Inl Unreachable"
    by simp
  from table ok loads closed undeclared show ?thesis
    by (intro conjI)
qed

theorem load_reports_table_message_witness:
  "(RESVG_ERROR_NOT_AN_UTF8_STR, ''The SVG content has not an UTF-8 encoding.'') \<in> set spec_messages
   \<and> resvg_parse_tree_from_data sample_engine ''latin1'' (initOptions sample_engine qt_real)
       = (RESVG_ERROR_NOT_AN_UTF8_STR, None)
   \<and> (\<exists>d' rel. load_data sample_engine qt_real ''latin1'' logo_doc = Inr (False, d', rel)
        \<and> errorString d' = ''The SVG content has not an UTF-8 encoding.'')"
proof -
  have m: "(RESVG_ERROR_NOT_AN_UTF8_STR, ''The SVG content has not an UTF-8 encoding.'') \<in> set spec_messages"
    by (simp add: spec_messages_def)
  have p: "resvg_parse_tree_from_data sample_engine ''latin1'' (initOptions sample_engine qt_real)
       = (RESVG_ERROR_NOT_AN_UTF8_STR, None)"
    by (simp add: sample_engine_def)
  have c: "RESVG_ERROR_NOT_AN_UTF8_STR \<noteq> RESVG_OK"
    by simp
  note t = load_reports_table_message [OF m, of sample_engine qt_real logo_doc]
  note t3 = t [THEN conjunct2, THEN conjunct2, THEN conjunct1, THEN mp, OF c, THEN conjunct1]
  have "\<exists>d' rel. load_data sample_engine qt_real ''latin1'' logo_doc = Inr (False, d', rel)
        \<and> errorString d' = ''The SVG content has not an UTF-8 encoding.''"
    by (rule t3 [rule_format, OF p])
  with m p show ?thesis
    by (intro conjI)
qed

subsection \<open>Bounds of an element\<close>

text \<open>
  Claim C1. \<open>boundsOnElement\<close> should return the engine's rectangle
  \<open>(x, y, width, height)\<close>. The code builds \<^verbatim>\<open>QRectF(bbox.x, bbox.y, bbox.height, bbox.width)\<close>:
  for the element \<^verbatim>\<open>foo\<close> of the sample document, whose bounding box is
  \<open>(10, 20, 30, 40)\<close>, it returns \<open>(10, 20, 40, 30)\<close>.
\<close>

theorem boundsOnElement_swaps_width_and_height:
  "load_file sample_engine qt_real ''logo.svg'' (Data_new sample_engine) = Inr (True, logo_doc, [])
   \<and> resvg_qt_get_node_bbox sample_engine 1 (opt logo_doc) ''foo''
       = Some \<lparr>rect_x = 10, rect_y = 20, rect_width = 30, rect_height = 40\<rparr>
   \<and> boundsOnElement sample_engine logo_doc ''foo''
       = \<lparr>rectf_x = 10, rectf_y = 20, rectf_width = 40, rectf_height = 30\<rparr>"
  by (simp add: sample_load_logo) (simp add: boundsOnElement_def logo_doc_def sample_engine_def)

subsection \<open>What a load leaves behind\<close>

lemma load_data_false:
  assumes "load_data eng qt bytes d = Inr (False, d', rel)"
  shows "\<exists>c out msg. resvg_parse_tree_from_data eng bytes (initOptions eng qt) = (c, out)
           \<and> c \<noteq> RESVG_OK \<and> errorToString c = Inr msg
           \<and> d' = \<lparr>tree = out, opt = initOptions eng qt, viewBox = QRectF_null, errMsg = msg\<rparr>
           \<and> rel = snd (reset eng qt d)"
proof -
  obtain c out where p: "resvg_parse_tree_from_data eng bytes (initOptions eng qt) = (c, out)"
    by (cases "resvg_parse_tree_from_data eng bytes (initOptions eng qt)")
  show ?thesis
  proof (cases "c = RESVG_OK")
    case True
    with assms p show ?thesis
      by (cases out) (simp_all add: load_data_def reset_result Let_def)
  next
    case False
    show ?thesis
    proof (cases "errorToString c")
      case (Inl e)
      with assms p False show ?thesis
        by (cases out) (simp_all add: load_data_def reset_result Let_def)
    next
      case (Inr msg)
      from load_data_failed [OF p False Inr, of d] assms p False Inr show ?thesis
        by simp
    qed
  qed
qed

lemma load_file_false:
  assumes "\<not> startsWith filePath '':/''"
    and "load_file eng qt filePath d = Inr (False, d', rel)"
  shows "\<exists>c out msg.
           resvg_parse_tree_from_file eng filePath ((initOptions eng qt)\<lparr>path := Some filePath\<rparr>) = (c, out)
           \<and> c \<noteq> RESVG_OK \<and> errorToString c = Inr msg
           \<and> d' = \<lparr>tree = out, opt = (initOptions eng qt)\<lparr>path := Some filePath\<rparr>,
                   viewBox = QRectF_null, errMsg = msg\<rparr>
           \<and> rel = snd (reset eng qt d)"
proof -
  obtain c out where p:
    "resvg_parse_tree_from_file eng filePath ((initOptions eng qt)\<lparr>path := Some filePath\<rparr>) = (c, out)"
    by (cases "resvg_parse_tree_from_file eng filePath ((initOptions eng qt)\<lparr>path := Some filePath\<rparr>)")
  show ?thesis
  proof (cases "c = RESVG_OK")
    case True
    with assms p show ?thesis
      by (cases out) (simp_all add: load_file_def reset_result Let_def)
  next
    case False
    show ?thesis
    proof (cases "errorToString c")
      case (Inl e)
      with assms p False show ?thesis
        by (cases out) (simp_all add: load_file_def reset_result Let_def)
    next
      case (Inr msg)
      from load_file_failed [OF assms(1) p False Inr, of d] assms p False Inr show ?thesis
        by simp
    qed
  qed
qed

lemma load_data_opt:
  assumes "load_data eng qt bytes d = Inr (ok, d', rel)"
  shows "opt d' = initOptions eng qt"
proof -
  obtain c out where p: "resvg_parse_tree_from_data eng bytes (initOptions eng qt) = (c, out)"
    by (cases "resvg_parse_tree_from_data eng bytes (initOptions eng qt)")
  with assms show ?thesis
    by (cases out; cases "errorToString c")
       (auto simp add: load_data_def reset_result Let_def split: if_splits)
qed

lemma load_file_opt:
  assumes "\<not> startsWith filePath '':/''"
    and "load_file eng qt filePath d = Inr (ok, d', rel)"
  shows "opt d' = (initOptions eng qt)\<lparr>path := Some filePath\<rparr>"
proof -
  obtain c out where p:
    "resvg_parse_tree_from_file eng filePath ((initOptions eng qt)\<lparr>path := Some filePath\<rparr>) = (c, out)"
    by (cases "resvg_parse_tree_from_file eng filePath ((initOptions eng qt)\<lparr>path := Some filePath\<rparr>)")
  with assms show ?thesis
    by (cases out; cases "errorToString c")
       (auto simp add: load_file_def reset_result Let_def split: if_splits)
qed

lemma load_file_resource:
  assumes "startsWith filePath '':/''"
  shows "load_file eng qt filePath d =
           (case resourceFile qt filePath of
              Some bytes \<Rightarrow> load_data eng qt bytes d
            | None \<Rightarrow> Inr (False, d, []))"
  using assms by (simp add: load_file_def)

subsection \<open>Emptiness\<close>

text \<open>
  Claim C2, as amended. \<open>isEmpty\<close> is true exactly when no document is owned or the
  engine's \<^verbatim>\<open>resvg_is_image_empty\<close> returns \<^verbatim>\<open>false\<close> for the owned tree: with a document,
  \<open>isEmpty\<close> is the negation of the engine's predicate (the code returns
  \<^verbatim>\<open>!resvg_is_image_empty(d->tree)\<close>, and the method's doc comment reads "Returns true if
  tree has any nodes").
\<close>

theorem isEmpty_negates_engine_predicate:
  "isEmpty eng d = (tree d = None \<or> (\<exists>t. tree d = Some t \<and> \<not> resvg_is_image_empty eng t))
   \<and> (\<forall>t. tree d = Some t \<longrightarrow> isEmpty eng d = (\<not> resvg_is_image_empty eng t))"
  by (cases "tree d") (simp_all add: isEmpty_def)

theorem isEmpty_negates_engine_predicate_witness:
  "tree logo_doc = Some 1 \<and> \<not> resvg_is_image_empty sample_engine 1 \<and> isEmpty sample_engine logo_doc"
proof -
  have t: "tree logo_doc = Some 1"
    by (simp add: logo_doc_def)
  have e: "\<not> resvg_is_image_empty sample_engine 1"
    by (simp add: sample_engine_def)
  note n = isEmpty_negates_engine_predicate [of sample_engine logo_doc, THEN conjunct2, rule_format, OF t]
  from e have "isEmpty sample_engine logo_doc"
    by (simp only: n simp_thms)
  with t e show ?thesis
    by (intro conjI)
qed

text \<open>
  Claim C2 as stated fails: after loading the bytes \<^verbatim>\<open><svg/>\<close> the renderer owns tree 2,
  the engine's predicate holds of it, and \<open>isEmpty\<close> is false.
\<close>

theorem isEmpty_disagrees_with_engine_predicate:
  "load_data sample_engine qt_real ''<svg/>'' (Data_new sample_engine) = Inr (True, bytes_doc, [])
   \<and> tree bytes_doc = Some 2
   \<and> resvg_is_image_empty sample_engine 2
   \<and> \<not> isEmpty sample_engine bytes_doc"
proof -
  have t: "tree bytes_doc = Some 2"
    by (simp add: bytes_doc_def)
  have e: "resvg_is_image_empty sample_engine 2"
    by (simp add: sample_engine_def)
  have "\<not> isEmpty sample_engine bytes_doc"
    by (simp add: isEmpty_def t e)
  with sample_load_bytes t e show ?thesis
    by (intro conjI)
qed

subsection \<open>Loading a resource\<close>

text \<open>
  Claim C10. For a path with the prefix \<^verbatim>\<open>:/\<close> whose resource file opens,
  \<open>load_file\<close> returns what \<open>load_data\<close> returns on the file's bytes (the same
  \<^verbatim>\<open>bool\<close>, the same state, the same releases), and whenever it returns the base path
  of the options is null.
\<close>

theorem resource_load_is_load_of_its_bytes:
  assumes "startsWith filePath '':/''" and "resourceFile qt filePath = Some bytes"
  shows "load_file eng qt filePath d = load_data eng qt bytes d
         \<and> (\<forall>ok d' rel. load_file eng qt filePath d = Inr (ok, d', rel) \<longrightarrow> path (opt d') = None)"
proof -
  have same: "load_file eng qt filePath d = load_data eng qt bytes d"
    using assms by (simp add: load_file_resource)
  have "path (opt d') = None" if "load_file eng qt filePath d = Inr (ok, d', rel)" for ok d' rel
    using that load_data_opt [of eng qt bytes d ok d' rel] by (simp add: same initOptions_path)
  with same show ?thesis
    by (intro conjI allI impI)
qed

theorem resource_load_is_load_of_its_bytes_witness:
  "startsWith '':/icon.svg'' '':/''
   \<and> resourceFile qt_real '':/icon.svg'' = Some ''<svg/>''
   \<and> load_file sample_engine qt_real '':/icon.svg'' logo_doc
       = load_data sample_engine qt_real ''<svg/>'' logo_doc"
proof -
  have s: "startsWith '':/icon.svg'' '':/''"
    by (simp add: startsWith_def)
  have r: "resourceFile qt_real '':/icon.svg'' = Some ''<svg/>''"
    by (simp add: qt_real_def)
  from resource_load_is_load_of_its_bytes [OF s r, of sample_engine logo_doc, THEN conjunct1] s r
  show ?thesis
    by (intro conjI)
qed

subsection \<open>More on the sample engine\<close>

lemma sample_engine_contract: "failed_parse_stores_nothing sample_engine"
  by (simp add: failed_parse_stores_nothing_def sample_engine_def)

lemma sample_load_missing:
  "load_file sample_engine qt_real ''missing.svg'' d =
     Inr (False,
          \<lparr>tree = None, opt = \<lparr>path = Some ''missing.svg'', dpi = 192\<rparr>,
           viewBox = QRectF_null, errMsg = ''Failed to open the file.''\<rparr>,
          snd (reset sample_engine qt_real d))"
  by (subst load_file_failed [where c = RESVG_ERROR_FILE_OPEN_FAILED and out = None])
     (simp_all add: startsWith_def sample_initOptions, simp add: sample_engine_def)

lemma sample_releases_logo:
  "snd (reset sample_engine qt_real logo_doc) = [TreeDestroyed 1, PathFreed ''logo.svg'']"
  by (simp add: reset_result logo_doc_def)

lemma sample_releases_new:
  "snd (reset sample_engine qt_real (Data_new sample_engine)) = []"
  by (simp add: reset_result Data_new_def resvg_init_options_def)

subsection \<open>Failed loads\<close>

lemma failed_parse_data_stores_nothing:
  assumes "failed_parse_stores_nothing eng"
    and "resvg_parse_tree_from_data eng s opts = (c, out)" and "c \<noteq> RESVG_OK"
  shows "out = None"
proof -
  from assms(1) have "fst (resvg_parse_tree_from_data eng s opts) \<noteq> RESVG_OK
      \<longrightarrow> snd (resvg_parse_tree_from_data eng s opts) = None"
    unfolding failed_parse_stores_nothing_def by blast
  with assms(2,3) show ?thesis by simp
qed

lemma failed_parse_file_stores_nothing:
  assumes "failed_parse_stores_nothing eng"
    and "resvg_parse_tree_from_file eng s opts = (c, out)" and "c \<noteq> RESVG_OK"
  shows "out = None"
proof -
  from assms(1) have "fst (resvg_parse_tree_from_file eng s opts) \<noteq> RESVG_OK
      \<longrightarrow> snd (resvg_parse_tree_from_file eng s opts) = None"
    unfolding failed_parse_stores_nothing_def by blast
  with assms(2,3) show ?thesis by simp
qed

lemma load_unattempted:
  assumes "\<not> parse_attempted qt call"
  shows "load eng qt call d = Inr (False, d, [])"
proof (cases call)
  case (LoadFile filePath)
  with assms show ?thesis
    by (simp add: load_file_resource split: if_splits)
next
  case (LoadData bytes)
  with assms show ?thesis by simp
qed

lemma load_false:
  assumes contract: "failed_parse_stores_nothing eng"
    and attempted: "parse_attempted qt call"
    and failed: "load eng qt call d = Inr (False, d', rel)"
  shows "tree d' = None \<and> viewBox d' = QRectF_null \<and> rel = snd (reset eng qt d)"
proof -
  have from_data: "tree d' = None \<and> viewBox d' = QRectF_null \<and> rel = snd (reset eng qt d)"
    if "load_data eng qt bytes d = Inr (False, d', rel)" for bytes
  proof -
    from load_data_false [OF that] obtain c out msg where
      p: "resvg_parse_tree_from_data eng bytes (initOptions eng qt) = (c, out)"
      and c: "c \<noteq> RESVG_OK"
      and d': "d' = \<lparr>tree = out, opt = initOptions eng qt, viewBox = QRectF_null, errMsg = msg\<rparr>"
      and rel: "rel = snd (reset eng qt d)"
      by blast
    from contract p c have "out = None"
      by (rule failed_parse_data_stores_nothing)
    with d' rel show ?thesis by simp
  qed
  show ?thesis
  proof (cases call)
    case (LoadData bytes)
    with failed from_data show ?thesis by simp
  next
    case (LoadFile filePath)
    show ?thesis
    proof (cases "startsWith filePath '':/''")
      case True
      with attempted LoadFile obtain bytes where "resourceFile qt filePath = Some bytes"
        by auto
      with True failed LoadFile have "load_data eng qt bytes d = Inr (False, d', rel)"
        by (simp add: load_file_resource)
      then show ?thesis by (rule from_data)
    next
      case False
      from failed LoadFile have "load_file eng qt filePath d = Inr (False, d', rel)"
        by simp
      from load_file_false [OF False this] obtain c out msg where
        p: "resvg_parse_tree_from_file eng filePath ((initOptions eng qt)\<lparr>path := Some filePath\<rparr>) = (c, out)"
        and c: "c \<noteq> RESVG_OK"
        and d': "d' = \<lparr>tree = out, opt = (initOptions eng qt)\<lparr>path := Some filePath\<rparr>,
                   viewBox = QRectF_null, errMsg = msg\<rparr>"
        and rel: "rel = snd (reset eng qt d)"
        by blast
      from contract p c have "out = None"
        by (rule failed_parse_file_stores_nothing)
      with d' rel show ?thesis by simp
    qed
  qed
qed

text \<open>
  Claim C3, as amended. Let the engine store no tree when a parse fails. A load that
  attempts a parse (bytes, a path without the prefix \<^verbatim>\<open>:/\<close>, a resource that opens) and
  returns \<^verbatim>\<open>false\<close> leaves the renderer empty: no document is owned, the viewbox is
  null, and the releases are those of the reset that came before the parse, so a document
  owned before is destroyed, once. A load of a resource that does not open returns
  \<^verbatim>\<open>false\<close> without a reset: the state is what it was and nothing is released.
\<close>

theorem failed_parse_leaves_renderer_empty:
  assumes "failed_parse_stores_nothing eng"
  shows "(parse_attempted qt call \<longrightarrow>
            (\<forall>d' rel. load eng qt call d = Inr (False, d', rel) \<longrightarrow>
               \<not> isValid d' \<and> viewBox d' = QRectF_null
               \<and> rel = (case tree d of Some t \<Rightarrow> [TreeDestroyed t] | None \<Rightarrow> [])
                        @ (case path (opt d) of Some s \<Rightarrow> [PathFreed s] | None \<Rightarrow> [])))
         \<and> (\<not> parse_attempted qt call \<longrightarrow> load eng qt call d = Inr (False, d, []))"
proof (intro conjI impI allI)
  fix d' rel
  assume "parse_attempted qt call" and "load eng qt call d = Inr (False, d', rel)"
  from load_false [OF assms this]
  show "\<not> isValid d'" and "viewBox d' = QRectF_null"
    and "rel = (case tree d of Some t \<Rightarrow> [TreeDestroyed t] | None \<Rightarrow> [])
                 @ (case path (opt d) of Some s \<Rightarrow> [PathFreed s] | None \<Rightarrow> [])"
    by (simp_all add: isValid_def reset_result)
next
  assume "\<not> parse_attempted qt call"
  then show "load eng qt call d = Inr (False, d, [])"
    by (rule load_unattempted)
qed

theorem failed_parse_leaves_renderer_empty_witness:
  "failed_parse_stores_nothing sample_engine
   \<and> parse_attempted qt_real (LoadFile ''missing.svg'')
   \<and> isValid logo_doc
   \<and> load sample_engine qt_real (LoadFile ''missing.svg'') logo_doc =
       Inr (False,
            \<lparr>tree = None, opt = \<lparr>path = Some ''missing.svg'', dpi = 192\<rparr>,
             viewBox = QRectF_null, errMsg = ''Failed to open the file.''\<rparr>,
            [TreeDestroyed 1, PathFreed ''logo.svg''])
   \<and> \<not> isValid \<lparr>tree = (None :: nat option), opt = \<lparr>path = Some ''missing.svg'', dpi = 192\<rparr>,
                   viewBox = (QRectF_null :: real QRectF), errMsg = ''Failed to open the file.''\<rparr>"
proof -
  have a: "parse_attempted qt_real (LoadFile ''missing.svg'')"
    by (simp add: startsWith_def)
  have v: "isValid logo_doc"
    by (simp add: isValid_def logo_doc_def)
  have l: "load sample_engine qt_real (LoadFile ''missing.svg'') logo_doc =
       Inr (False,
            \<lparr>tree = None, opt = \<lparr>path = Some ''missing.svg'', dpi = 192\<rparr>,
             viewBox = QRectF_null, errMsg = ''Failed to open the file.''\<rparr>,
            [TreeDestroyed 1, PathFreed ''logo.svg''])"
    by (simp only: load.simps sample_load_missing sample_releases_logo)
  note t = failed_parse_leaves_renderer_empty [OF sample_engine_contract, of qt_real
      "LoadFile ''missing.svg''" logo_doc, THEN conjunct1, THEN mp, OF a, rule_format, OF l]
  from sample_engine_contract a v l t [THEN conjunct1] show ?thesis
    by (intro conjI)
qed

text \<open>
  Claim C3 as stated fails: the resource \<^verbatim>\<open>:/missing.svg\<close> does not open, the load
  returns \<^verbatim>\<open>false\<close>, and the renderer still owns the document it had.
\<close>

theorem unopened_resource_keeps_document:
  "\<not> parse_attempted qt_real (LoadFile '':/missing.svg'')
   \<and> load sample_engine qt_real (LoadFile '':/missing.svg'') logo_doc = Inr (False, logo_doc, [])
   \<and> isValid logo_doc"
proof -
  have a: "\<not> parse_attempted qt_real (LoadFile '':/missing.svg'')"
    by (simp add: startsWith_def qt_real_def)
  have v: "isValid logo_doc"
    by (simp add: isValid_def logo_doc_def)
  from a load_unattempted [OF a, of sample_engine logo_doc] v show ?thesis
    by (intro conjI)
qed

subsection \<open>The base path\<close>

lemma load_base_path:
  assumes "load eng qt call d = Inr (ok, d', rel)"
  shows "path (opt d') = base_path_after qt (path (opt d)) call"
proof (cases call)
  case (LoadData bytes)
  with assms have "opt d' = initOptions eng qt"
    by (simp add: load_data_opt)
  with LoadData show ?thesis
    by (simp add: initOptions_path)
next
  case (LoadFile filePath)
  show ?thesis
  proof (cases "startsWith filePath '':/''")
    case False
    with assms LoadFile have "opt d' = (initOptions eng qt)\<lparr>path := Some filePath\<rparr>"
      by (simp add: load_file_opt)
    with False LoadFile show ?thesis by simp
  next
    case True
    show ?thesis
    proof (cases "resourceFile qt filePath")
      case None
      with True assms LoadFile show ?thesis
        by (simp add: load_file_resource)
    next
      case (Some bytes)
      with True assms LoadFile have "load_data eng qt bytes d = Inr (ok, d', rel)"
        by (simp add: load_file_resource)
      then have "opt d' = initOptions eng qt"
        by (rule load_data_opt)
      with True Some LoadFile show ?thesis
        by (simp add: initOptions_path)
    qed
  qed
qed

lemma loads_base_path:
  "loads eng qt calls d = Inr d' \<Longrightarrow> path (opt d') = foldl (base_path_after qt) (path (opt d)) calls"
proof (induction calls arbitrary: d)
  case Nil
  then show ?case by simp
next
  case (Cons call calls)
  from Cons.prems obtain ok d1 rel where
    first: "load eng qt call d = Inr (ok, d1, rel)" and rest: "loads eng qt calls d1 = Inr d'"
    by (auto split: sum.splits)
  from Cons.IH [OF rest] load_base_path [OF first] show ?case
    by simp
qed

lemma Data_new_path: "path (opt (Data_new eng)) = None"
  by (simp add: Data_new_def resvg_init_options_def)

text \<open>
  Claim C8, as amended. After \<^verbatim>\<open>ResvgRenderer()\<close> and any sequence of loads, the base
  path of the options is the one left by the last load that reset the state: the path of
  a load from a file without the prefix \<^verbatim>\<open>:/\<close>, whether or not that load succeeded, and
  null after a load of bytes, after a load of a resource that opened, and when no load
  has reset the state. In particular it is null after any byte-array load and is the
  file's path after any load from such a file.
\<close>

theorem base_path_follows_last_resetting_load:
  assumes "loads eng qt calls (Data_new eng) = Inr d"
  shows "path (opt d) = foldl (base_path_after qt) None calls
         \<and> (\<forall>before bytes. calls = before @ [LoadData bytes] \<longrightarrow> path (opt d) = None)
         \<and> (\<forall>before filePath. calls = before @ [LoadFile filePath] \<and> \<not> startsWith filePath '':/''
               \<longrightarrow> path (opt d) = Some filePath)"
proof -
  have fold: "path (opt d) = foldl (base_path_after qt) None calls"
    using loads_base_path [OF assms] by (simp add: Data_new_path)
  then show ?thesis
    by auto
qed

lemma sample_loads_logo_missing:
  "loads sample_engine qt_real [LoadFile ''logo.svg'', LoadFile ''missing.svg''] (Data_new sample_engine) =
     Inr missing_doc"
  by (simp only: loads.simps load.simps sample_load_logo sample_load_missing sum.case prod.case
        missing_doc_def)

theorem base_path_follows_last_resetting_load_witness:
  "loads sample_engine qt_real [LoadFile ''logo.svg'', LoadFile ''missing.svg''] (Data_new sample_engine) =
     Inr missing_doc
   \<and> path (opt missing_doc) = Some ''missing.svg''
   \<and> foldl (base_path_after qt_real) None [LoadFile ''logo.svg'', LoadFile ''missing.svg'']
       = Some ''missing.svg''"
proof -
  have p: "path (opt missing_doc) = Some ''missing.svg''"
    by (simp add: missing_doc_def)
  note t = base_path_follows_last_resetting_load [OF sample_loads_logo_missing, THEN conjunct1]
  from t p have "foldl (base_path_after qt_real) None [LoadFile ''logo.svg'', LoadFile ''missing.svg'']
       = Some ''missing.svg''"
    by (simp only:)
  with sample_loads_logo_missing p show ?thesis
    by (intro conjI)
qed

text \<open>
  Claim C8 as stated fails: after a failed load from the file \<^verbatim>\<open>missing.svg\<close> no
  document is owned and the base path is that file's path, not null.
\<close>

theorem base_path_set_without_document:
  "load_file sample_engine qt_real ''missing.svg'' (Data_new sample_engine) = Inr (False, missing_doc, [])
   \<and> \<not> isValid missing_doc
   \<and> path (opt missing_doc) = Some ''missing.svg''"
  by (simp add: sample_load_missing sample_releases_new isValid_def missing_doc_def)

subsection \<open>Drawing an element\<close>

lemma painter_at_call:
  "setTransform qt composed True (setRenderHint Antialiasing (save p)) =
     \<lparr>state = \<lparr>transform = multiply qt composed (transform (state p)),
               clip = clip (state p),
               renderHints = insert Antialiasing (renderHints (state p)),
               viewport = viewport (state p)\<rparr>,
      saved = state p # saved p,
      device = device p\<rparr>"
  by (cases p, cases "state p") (simp add: setTransform_def setRenderHint_def save_def)

lemma restore_after_save:
  assumes "saved q = state p # saved p"
  shows "state (restore q) = state p" and "saved (restore q) = saved p"
  using assms by (simp_all add: restore_def)

text \<open>
  Claim C4. With a document owned, \<open>render_element\<close> does the following. When the
  engine's bounding-box query fails it sends one warning and returns the painter as it
  was, nothing drawn. Otherwise the engine draws on the painter after \<^verbatim>\<open>save()\<close>, with
  antialiasing on and the painter's transform multiplied by
  \<open>(r.width / bbox.width, 0, 0, r.height / bbox.height, bounds.x, bounds.y)\<close>, where \<open>r\<close> is
  \<open>bounds\<close> when that is valid and the painter's viewport otherwise; the translation is
  the origin of the caller's \<open>bounds\<close>, so it is \<open>(0, 0)\<close> for the null rectangle.
  The painter is restored after the engine's call.
\<close>

theorem render_element_composes_scale_and_bounds_origin:
  assumes "tree d = Some t"
  shows
   "(resvg_qt_get_node_bbox eng t (opt d) elementId = None \<longrightarrow>
       render_element eng qt d p elementId bounds =
         (p, [''Element '' @ [CHR 0x27] @ elementId @ [CHR 0x27] @ '' has no bounding box.'']))
    \<and> (\<forall>bbox. resvg_qt_get_node_bbox eng t (opt d) elementId = Some bbox \<longrightarrow>
         (let r = (if rectf_isValid bounds then bounds else QRectF_of_QRect qt (viewport (state p)));
              composed = QTransform6 (rectf_width r / rect_width bbox) 0 0
                                     (rectf_height r / rect_height bbox)
                                     (rectf_x bounds) (rectf_y bounds);
              at_call = \<lparr>state = \<lparr>transform = multiply qt composed (transform (state p)),
                                  clip = clip (state p),
                                  renderHints = insert Antialiasing (renderHints (state p)),
                                  viewport = viewport (state p)\<rparr>,
                         saved = state p # saved p,
                         device = device p\<rparr>;
              imgSize = \<lparr>img_width = toUInt qt (rect_width bbox),
                         img_height = toUInt qt (rect_height bbox)\<rparr>
          in render_element eng qt d p elementId bounds =
               (restore (resvg_qt_render_to_canvas_by_id eng t (opt d) imgSize elementId at_call), [])
             \<and> (bounds = QRectF_null \<longrightarrow> m31 composed = 0 \<and> m32 composed = 0)))"
proof (intro conjI impI allI)
  assume "resvg_qt_get_node_bbox eng t (opt d) elementId = None"
  with assms show "render_element eng qt d p elementId bounds =
         (p, [''Element '' @ [CHR 0x27] @ elementId @ [CHR 0x27] @ '' has no bounding box.''])"
    by (simp add: render_element_def)
next
  fix bbox
  assume b: "resvg_qt_get_node_bbox eng t (opt d) elementId = Some bbox"
  have v: "viewport (state (setRenderHint Antialiasing (save p))) = viewport (state p)"
    by (simp add: setRenderHint_def save_def)
  from assms b show "let r = (if rectf_isValid bounds then bounds else QRectF_of_QRect qt (viewport (state p)));
              composed = QTransform6 (rectf_width r / rect_width bbox) 0 0
                                     (rectf_height r / rect_height bbox)
                                     (rectf_x bounds) (rectf_y bounds);
              at_call = \<lparr>state = \<lparr>transform = multiply qt composed (transform (state p)),
                                  clip = clip (state p),
                                  renderHints = insert Antialiasing (renderHints (state p)),
                                  viewport = viewport (state p)\<rparr>,
                         saved = state p # saved p,
                         device = device p\<rparr>;
              imgSize = \<lparr>img_width = toUInt qt (rect_width bbox),
                         img_height = toUInt qt (rect_height bbox)\<rparr>
          in render_element eng qt d p elementId bounds =
               (restore (resvg_qt_render_to_canvas_by_id eng t (opt d) imgSize elementId at_call), [])
             \<and> (bounds = QRectF_null \<longrightarrow> m31 composed = 0 \<and> m32 composed = 0)"
    by (simp add: render_element_def Let_def v painter_at_call QTransform6_def QRectF_null_def)
qed

lemma sample_bbox_foo:
  "resvg_qt_get_node_bbox sample_engine 1 (opt logo_doc) ''foo''
     = Some \<lparr>rect_x = 10, rect_y = 20, rect_width = 30, rect_height = 40\<rparr>"
  by (simp add: sample_engine_def)

lemma logo_doc_tree: "tree logo_doc = Some 1"
  by (simp add: logo_doc_def)

lemma multiply_real_identity: "multiply_real a (QTransform6 1 0 0 1 0 0) = a"
  by (cases a) (simp add: multiply_real_def QTransform6_def)

lemma truncate_numeral: "truncate (numeral n) = numeral n"
  by (simp add: truncate_def)

theorem render_element_composes_scale_and_bounds_origin_witness:
  "tree logo_doc = Some 1
   \<and> resvg_qt_get_node_bbox sample_engine 1 (opt logo_doc) ''foo''
       = Some \<lparr>rect_x = 10, rect_y = 20, rect_width = 30, rect_height = 40\<rparr>
   \<and> render_element sample_engine qt_real logo_doc sample_painter ''foo''
         \<lparr>rectf_x = 100, rectf_y = 100, rectf_width = 60, rectf_height = 80\<rparr>
       = (sample_painter\<lparr>device := [(''foo'', QTransform6 2 0 0 2 100 100,
                                       \<lparr>img_width = 30, img_height = 40\<rparr>)]\<rparr>,
          [])"
proof -
  note t = render_element_composes_scale_and_bounds_origin [OF logo_doc_tree, of sample_engine "''foo''"
      qt_real sample_painter "\<lparr>rectf_x = 100, rectf_y = 100, rectf_width = 60, rectf_height = 80\<rparr>",
      THEN conjunct2, rule_format, OF sample_bbox_foo]
  have "render_element sample_engine qt_real logo_doc sample_painter ''foo''
         \<lparr>rectf_x = 100, rectf_y = 100, rectf_width = 60, rectf_height = 80\<rparr>
       = (sample_painter\<lparr>device := [(''foo'', QTransform6 2 0 0 2 100 100,
                                       \<lparr>img_width = 30, img_height = 40\<rparr>)]\<rparr>,
          [])"
    using t
    by (simp add: Let_def rectf_isValid_def)
       (simp add: sample_engine_def qt_real_def sample_painter_def logo_doc_def restore_def
          multiply_real_identity truncate_numeral)
  with logo_doc_tree sample_bbox_foo show ?thesis
    by (intro conjI)
qed

subsection \<open>The painter after a draw call\<close>

lemma render_bounds_state:
  assumes "render_keeps_saved_states eng"
  shows "state (render_bounds eng qt d p bounds) = state p"
    and "saved (render_bounds eng qt d p bounds) = saved p"
proof -
  have keep: "saved (resvg_qt_render_to_canvas eng t opts sz q) = saved q" for t opts sz q
    using assms unfolding render_keeps_saved_states_def by blast
  show "state (render_bounds eng qt d p bounds) = state p"
    by (cases "tree d")
       (simp_all add: render_bounds_def Let_def restore_after_save keep painter_at_call)
  show "saved (render_bounds eng qt d p bounds) = saved p"
    by (cases "tree d")
       (simp_all add: render_bounds_def Let_def restore_after_save keep painter_at_call)
qed

lemma render_element_state:
  assumes "render_keeps_saved_states eng"
  shows "state (fst (render_element eng qt d p elementId bounds)) = state p"
    and "saved (fst (render_element eng qt d p elementId bounds)) = saved p"
proof -
  have keep: "saved (resvg_qt_render_to_canvas_by_id eng t opts sz ident q) = saved q" for t opts sz ident q
    using assms unfolding render_keeps_saved_states_def by blast
  show "state (fst (render_element eng qt d p elementId bounds)) = state p"
    by (cases "tree d")
       (simp_all add: render_element_def Let_def restore_after_save keep painter_at_call
          split: option.split)
  show "saved (fst (render_element eng qt d p elementId bounds)) = saved p"
    by (cases "tree d")
       (simp_all add: render_element_def Let_def restore_after_save keep painter_at_call
          split: option.split)
qed

text \<open>
  Claim C5. Let the engine's draw calls leave the painter's stack of saved states as
  they found it. After every draw call (the whole document with or without bounds, an
  element by id with any bounds, also when the element has no bounding box) the painter's
  transform, clip and render hints are what they were before the call; so are the whole
  current state and the stack of saved states.
\<close>

theorem render_restores_painter_state:
  assumes "render_keeps_saved_states eng"
  shows "\<forall>p' \<in> {render eng qt d p, render_bounds eng qt d p bounds,
                 fst (render_element eng qt d p elementId bounds)}.
           transform (state p') = transform (state p)
           \<and> clip (state p') = clip (state p)
           \<and> renderHints (state p') = renderHints (state p)
           \<and> state p' = state p
           \<and> saved p' = saved p"
  using render_bounds_state [OF assms] render_element_state [OF assms]
  by (simp add: render_def)

lemma sample_engine_keeps_saved: "render_keeps_saved_states sample_engine"
  by (simp add: render_keeps_saved_states_def sample_engine_def)

theorem render_restores_painter_state_witness:
  "render_keeps_saved_states sample_engine
   \<and> isValid logo_doc
   \<and> clip (state (resvg_qt_render_to_canvas sample_engine 1 (opt logo_doc)
                    \<lparr>img_width = 200, img_height = 100\<rparr> sample_painter)) = 7
   \<and> clip (state sample_painter) = 0
   \<and> clip (state (render sample_engine qt_real logo_doc sample_painter)) = 0
   \<and> state (fst (render_element sample_engine qt_real logo_doc sample_painter ''foo'' QRectF_null))
       = state sample_painter
   \<and> state (fst (render_element sample_engine qt_real logo_doc sample_painter ''bar'' QRectF_null))
       = state sample_painter"
proof -
  note t = render_restores_painter_state [OF sample_engine_keeps_saved, of qt_real logo_doc
      sample_painter QRectF_null, rule_format]
  have v: "isValid logo_doc"
    by (simp add: isValid_def logo_doc_def)
  have e: "clip (state (resvg_qt_render_to_canvas sample_engine 1 (opt logo_doc)
                    \<lparr>img_width = 200, img_height = 100\<rparr> sample_painter)) = 7"
    by (simp add: sample_engine_def)
  have c: "clip (state sample_painter) = 0"
    by (simp add: sample_painter_def)
  have r: "clip (state (render sample_engine qt_real logo_doc sample_painter)) = 0"
    using t [of "render sample_engine qt_real logo_doc sample_painter" "''foo''"] c by simp
  have f: "state (fst (render_element sample_engine qt_real logo_doc sample_painter ''foo'' QRectF_null))
       = state sample_painter"
    using t [of "fst (render_element sample_engine qt_real logo_doc sample_painter ''foo'' QRectF_null)" "''foo''"]
    by simp
  have b: "state (fst (render_element sample_engine qt_real logo_doc sample_painter ''bar'' QRectF_null))
       = state sample_painter"
    using t [of "fst (render_element sample_engine qt_real logo_doc sample_painter ''bar'' QRectF_null)" "''bar''"]
    by simp
  from sample_engine_keeps_saved v e c r f b show ?thesis
    by (intro conjI)
qed

subsection \<open>The default size\<close>










end
